theory Spec2Isabelle
  imports Complex_Main
begin

section \<open>Tensors\<close>

text \<open>
  The losses and similarity routines work on float tensors. Entries are modelled as
  real numbers; a two-dimensional tensor is the list of its rows, a one-dimensional
  tensor (and the column produced by \<^verbatim>\<open>view(-1, 1)\<close>) is the list of its
  entries in memory order. A scalar result is either a number or NaN (the mean of an
  empty tensor); a raised exception is the left injection of a sum. The value
  \<open>NotANumber\<close> of \<open>error\<close> is no exception: it marks a run in which a tensor of the
  forward pass would hold NaN entries, which the real-valued tensors here cannot hold.
\<close>

type_synonym vec = "real list"
type_synonym matrix = "real list list"


datatype error =
    RuntimeError | ValueError | IndexError | KeyError | AttributeError
  | NotImplementedError | UnboundLocalError | NotANumber

datatype scalar = Num real | NaN


definition size1 :: "'a list list \<Rightarrow> nat" where
  "size1 x = (case x of [] \<Rightarrow> 0 | r # _ \<Rightarrow> length r)"













section \<open>Max-margin ranking loss\<close>


section \<open>Cross-entropy losses\<close>









section \<open>Similarity scoring\<close>

text \<open>
  \<^verbatim>\<open>F.normalize(x, dim=-1)\<close> with the defaults \<^verbatim>\<open>p=2, eps=1e-12\<close>: every
  vector \<open>v\<close> along the last dimension becomes \<open>v / max (\<parallel>v\<parallel>, eps)\<close>.
\<close>

definition normalize_eps :: real where
  "normalize_eps = 1 / 10 ^ 12"

definition norm2 :: "vec \<Rightarrow> real" where
  "norm2 v = sqrt (sum_list (map (\<lambda>a. a\<^sup>2) v))"

definition normalize_vec :: "vec \<Rightarrow> vec" where
  "normalize_vec v = map (\<lambda>a. a / max (norm2 v) normalize_eps) v"

definition normalize_rows :: "matrix \<Rightarrow> matrix" where
  "normalize_rows x = map normalize_vec x"

definition dot :: "vec \<Rightarrow> vec \<Rightarrow> real" where
  "dot u v = sum_list (map2 (*) u v)"

text \<open>\<^verbatim>\<open>a @ b.T\<close> for two-dimensional \<open>a\<close> and \<open>b\<close>; rows of different widths
  raise.\<close>

definition matmul_nt :: "matrix \<Rightarrow> matrix \<Rightarrow> error + matrix" where
  "matmul_nt a b =
     (if a \<noteq> [] \<and> b \<noteq> [] \<and> size1 a \<noteq> size1 b then Inl RuntimeError
      else Inr (map (\<lambda>r. map (\<lambda>c. dot r c) b) a))"

text \<open>\<^verbatim>\<open>sharded_cross_view_inner_product\<close> of \<^verbatim>\<open>model/MMTwins.py\<close>; the
  argument \<^verbatim>\<open>subspaces\<close> is not read.\<close>

definition sharded_cross_view_inner_product :: "matrix \<Rightarrow> matrix \<Rightarrow> string list \<Rightarrow> error + matrix" where
  "sharded_cross_view_inner_product vid_rep txt_rep subspaces =
     (let txt_rep_norm = normalize_rows txt_rep;
          vid_rep_norm = normalize_rows vid_rep
      in matmul_nt txt_rep_norm vid_rep_norm)"

section \<open>The MMTwins forward pass\<close>

text \<open>
  \<^verbatim>\<open>MMTwins.forward\<close> of \<^verbatim>\<open>model/MMTwins.py\<close>. A batched tensor is the list of
  its samples; the size of a dimension is read off the nested lists. Dictionaries
  keyed by modality that hold an entry for every modality are functions of the
  modality. The sub-modules whose code is not part of the repository (the two BERT
  encoders, the linear layers, batch normalisation) are parameters: they are taken
  to be deterministic, the encoders and batch normalisation may raise. Token ids,
  attention masks and the availability indicators are integer valued. The model
  gives the value returned (or the exception raised); it does not record that the
  call replaces the entries of the caller's \<^verbatim>\<open>features\<close> and
  \<^verbatim>\<open>features_t\<close> dictionaries. The branch guarded by
  \<^verbatim>\<open>self.debug_dataloader\<close>, which the constructor sets to \<^verbatim>\<open>False\<close>, is
  left out.
\<close>

fun bindE :: "error + 'a \<Rightarrow> ('a \<Rightarrow> error + 'b) \<Rightarrow> error + 'b" where
  "bindE (Inl e) f = Inl e"
| "bindE (Inr x) f = f x"

fun mapE :: "('a \<Rightarrow> error + 'b) \<Rightarrow> 'a list \<Rightarrow> error + 'b list" where
  "mapE f [] = Inr []"
| "mapE f (x # xs) = bindE (f x) (\<lambda>y. bindE (mapE f xs) (\<lambda>ys. Inr (y # ys)))"

fun foldE :: "('a \<Rightarrow> 's \<Rightarrow> error + 's) \<Rightarrow> 'a list \<Rightarrow> 's \<Rightarrow> error + 's" where
  "foldE f [] s = Inr s"
| "foldE f (x # xs) s = bindE (f x s) (foldE f xs)"

text \<open>The attributes of the model that \<^verbatim>\<open>forward\<close> reads: \<open>expert_idx\<close> is
  \<^verbatim>\<open>expert_dims[mod]['idx']\<close> and \<open>max_position_embeddings\<close> is the entry of that
  name of \<^verbatim>\<open>vid_bert_params\<close>.\<close>

record config =
  modalities :: "string list"
  expert_idx :: "string \<Rightarrow> int"
  same_dim :: nat
  keep_missing_modalities :: bool
  txt_wgh :: string
  vid_inp :: string
  vid_cont :: string
  vid_wgh :: string
  pos_enc :: string
  out_tok :: string
  max_position_embeddings :: int

text \<open>The keyword arguments of a call of an encoder.\<close>

record bert_input =
  input_ids :: "int list list"
  attention_mask :: "int list list"
  token_type_ids :: "int list list"
  position_ids :: "int list list option"
  bert_features :: "real list list list option"

text \<open>The sub-modules: the linear layer of \<^verbatim>\<open>video_dim_reduce[mod]\<close>, the two
  encoders (their first output, the last layer), the linear layers that compute the
  representations, the two projection heads (one bias-free linear layer each, as
  \<^verbatim>\<open>sizes\<close> has two entries) and the batch normalisation.\<close>

record modules =
  video_dim_reduce_fc :: "string \<Rightarrow> vec \<Rightarrow> vec"
  vid_bert :: "bert_input \<Rightarrow> error + real list list list"
  txt_bert :: "bert_input \<Rightarrow> error + real list list list"
  txt_avg2rep :: "vec \<Rightarrow> vec"
  vid_avg2rep :: "vec \<Rightarrow> vec"
  txt_projector :: "vec \<Rightarrow> vec"
  vid_projector :: "vec \<Rightarrow> vec"
  bn :: "matrix \<Rightarrow> error + matrix"

text \<open>The tensor arguments of \<^verbatim>\<open>forward\<close> that it reads.\<close>

record forward_input =
  token_ids :: "int list list list list"
  features :: "string \<Rightarrow> real list list list"
  features_t :: "string \<Rightarrow> real list list"
  features_ind :: "string \<Rightarrow> int list list"
  features_avgpool :: "string \<Rightarrow> matrix"
  features_maxpool :: "string \<Rightarrow> matrix"

text \<open>The three dictionaries that \<^verbatim>\<open>forward\<close> can return, by the value of
  \<^verbatim>\<open>out\<close>.\<close>

datatype returned =
    CrossViewConf "string list" matrix
  | Correlation "string list" matrix
  | Representations matrix matrix

subsection \<open>Tensor helpers\<close>

definition size2 :: "'a list list list \<Rightarrow> nat" where
  "size2 x = (case x of [] \<Rightarrow> 0 | a # _ \<Rightarrow> size1 a)"

text \<open>\<^verbatim>\<open>th.full((b,), v)\<close>.\<close>

definition full :: "nat \<Rightarrow> 'a \<Rightarrow> 'a list" where
  "full b v = replicate b v"

text \<open>\<^verbatim>\<open>x[:, k]\<close>.\<close>

definition column :: "'a list list \<Rightarrow> nat \<Rightarrow> error + 'a list" where
  "column x k =
     (if list_all (\<lambda>row. k < length row) x then Inr (map (\<lambda>row. row ! k) x)
      else Inl IndexError)"

text \<open>\<^verbatim>\<open>x[:, pos, k]\<close>.\<close>

definition select_tok :: "'a list list list \<Rightarrow> nat \<Rightarrow> nat \<Rightarrow> error + 'a list" where
  "select_tok x pos k =
     (if list_all (\<lambda>s. pos < length s \<and> k < length (s ! pos)) x
      then Inr (map (\<lambda>s. s ! pos ! k) x)
      else Inl IndexError)"

text \<open>\<^verbatim>\<open>th.stack(xs, dim=1)\<close> of a list of tensors whose first dimension is the
  batch: an empty list and tensors of different batch sizes raise. The sizes below
  the batch dimension are not compared.\<close>

definition stack_dim1 :: "'a list list \<Rightarrow> error + 'a list list" where
  "stack_dim1 xs =
     (case xs of
        [] \<Rightarrow> Inl RuntimeError
      | x # rest \<Rightarrow>
          if list_all (\<lambda>y. length y = length x) rest
          then Inr (map (\<lambda>i. map (\<lambda>t. t ! i) xs) [0..<length x])
          else Inl RuntimeError)"

text \<open>\<^verbatim>\<open>th.max(x, 1)[0]\<close> of an integer matrix: a row without entries raises.\<close>

definition amax_int :: "int list \<Rightarrow> error + int" where
  "amax_int xs = (case xs of [] \<Rightarrow> Inl RuntimeError | x # rest \<Rightarrow> Inr (fold max rest x))"

text \<open>\<^verbatim>\<open>th.mean(x, 1)\<close> of a tensor of shape \<open>[b, L, h]\<close>: the mean over no token is
  NaN.\<close>

definition mean_rows :: "matrix \<Rightarrow> error + vec" where
  "mean_rows toks =
     (case toks of
        [] \<Rightarrow> Inl NotANumber
      | t # _ \<Rightarrow>
          Inr (map (\<lambda>j. sum_list (map (\<lambda>r. r ! j) toks) / real (length toks)) [0..<length t]))"

definition mean_dim1 :: "real list list list \<Rightarrow> error + matrix" where
  "mean_dim1 x = mapE mean_rows x"

text \<open>\<^verbatim>\<open>a.T @ b\<close>.\<close>

definition matmul_tn :: "matrix \<Rightarrow> matrix \<Rightarrow> error + matrix" where
  "matmul_tn a b =
     (if length a \<noteq> length b then Inl RuntimeError
      else Inr (map (\<lambda>p. map (\<lambda>q. sum_list (map2 (\<lambda>ra rb. ra ! p * rb ! q) a b)) [0..<size1 b])
                  [0..<size1 a]))"

text \<open>\<^verbatim>\<open>cpt_cross_corrletaion_matrix\<close>; the argument \<^verbatim>\<open>subspaces\<close> is not read.\<close>

definition cpt_cross_corrletaion_matrix :: "matrix \<Rightarrow> matrix \<Rightarrow> string list \<Rightarrow> error + matrix" where
  "cpt_cross_corrletaion_matrix vid_embd_CL txt_embd_CL subspaces =
     matmul_tn vid_embd_CL txt_embd_CL"

text \<open>\<^verbatim>\<open>ReduceDim.forward\<close>, on one feature vector; \<open>fc\<close> is its linear layer.\<close>

definition ReduceDim_forward :: "(vec \<Rightarrow> vec) \<Rightarrow> vec \<Rightarrow> vec" where
  "ReduceDim_forward fc x = normalize_vec (fc x)"

subsection \<open>Availability of the modalities\<close>

text \<open>Lines 276-278: \<^verbatim>\<open>ind[mod] = th.max(experts_feats_ind[mod], 1)[0]\<close>, for every
  modality.\<close>

definition compute_ind :: "config \<Rightarrow> forward_input \<Rightarrow> error + (string \<Rightarrow> int list)" where
  "compute_ind cfg inp =
     bindE (mapE (\<lambda>modality. mapE amax_int (features_ind inp modality)) (modalities cfg))
       (\<lambda>vals. Inr (\<lambda>modality. case map_of (zip (modalities cfg) vals) modality of
                            Some v \<Rightarrow> v
                          | None \<Rightarrow> []))"

subsection \<open>The caption encoder\<close>

text \<open>Lines 295-315. The constructor raises unless \<^verbatim>\<open>txt_agg\<close> starts with
  \<^verbatim>\<open>bert\<close>, so this branch is always taken.\<close>

definition text_bert_input :: "forward_input \<Rightarrow> error + bert_input" where
  "text_bert_input inp =
     (let max_text_words = size2 (token_ids inp);
          token_ids' = concat (token_ids inp);
          ids_size = length token_ids'
      in bindE (mapE (\<lambda>pos_id. select_tok token_ids' pos_id 0) [0..<max_text_words])
          (\<lambda>input_ids_list.
         bindE (mapE (\<lambda>pos_id. select_tok token_ids' pos_id 1) [0..<max_text_words])
          (\<lambda>attention_mask_list.
         let token_type_ids_list = map (\<lambda>pos_id. full ids_size 0) [0..<max_text_words];
             position_ids_list = map (\<lambda>pos_id. full ids_size (int pos_id)) [0..<max_text_words]
         in bindE (stack_dim1 input_ids_list) (\<lambda>input_ids'.
            bindE (stack_dim1 token_type_ids_list) (\<lambda>token_type_ids'.
            bindE (stack_dim1 position_ids_list) (\<lambda>position_ids'.
            bindE (stack_dim1 attention_mask_list) (\<lambda>attention_mask'.
            Inr \<lparr>input_ids = input_ids',
                 attention_mask = attention_mask',
                 token_type_ids = token_type_ids',
                 position_ids = Some position_ids',
                 bert_features = None\<rparr>)))))))"

text \<open>Lines 317-327: the pair \<^verbatim>\<open>(text, text_avg)\<close>.\<close>

definition text_branch :: "modules \<Rightarrow> forward_input \<Rightarrow> error + (matrix \<times> matrix)" where
  "text_branch mods inp =
     bindE (text_bert_input inp) (\<lambda>bi.
     bindE (txt_bert mods bi) (\<lambda>last_layer.
     bindE (column last_layer 0) (\<lambda>text.
     bindE (mean_dim1 (map tl last_layer)) (\<lambda>text_avg.
     Inr (text, text_avg)))))"

subsection \<open>The video token sequence\<close>

text \<open>Lines 329-346: the pooled and the temporal features in the common dimension.\<close>

definition mnp_experts :: "modules \<Rightarrow> forward_input \<Rightarrow> string \<Rightarrow> matrix" where
  "mnp_experts mods inp modality =
     map (ReduceDim_forward (video_dim_reduce_fc mods modality)) (features_avgpool inp modality)"

definition maxp_experts :: "modules \<Rightarrow> forward_input \<Rightarrow> string \<Rightarrow> matrix" where
  "maxp_experts mods inp modality =
     map (ReduceDim_forward (video_dim_reduce_fc mods modality)) (features_maxpool inp modality)"

definition experts_feats :: "config \<Rightarrow> modules \<Rightarrow> forward_input \<Rightarrow> string \<Rightarrow> real list list list" where
  "experts_feats cfg mods inp modality =
     (if vid_inp cfg \<in> set [''both'', ''temp'', ''all'']
      then map (map (ReduceDim_forward (video_dim_reduce_fc mods modality))) (features inp modality)
      else features inp modality)"

text \<open>Lines 371-374.\<close>

definition max_expert_tokens :: "config \<Rightarrow> modules \<Rightarrow> forward_input \<Rightarrow> string \<Rightarrow> nat" where
  "max_expert_tokens cfg mods inp modality = size1 (experts_feats cfg mods inp modality)"

text \<open>Lines 377-384, for \<^verbatim>\<open>pos_enc == 'tint'\<close>: the times clamped to
  \<open>[0, max_position_embeddings - 1]\<close> and converted to integers.\<close>

definition clamp_long :: "int \<Rightarrow> real \<Rightarrow> int" where
  "clamp_long max_pos t = \<lfloor>min (max t 0) (of_int max_pos)\<rfloor>"

definition experts_feats_t :: "config \<Rightarrow> forward_input \<Rightarrow> string \<Rightarrow> int list list" where
  "experts_feats_t cfg inp modality =
     map (map (clamp_long (max_position_embeddings cfg - 1))) (features_t inp modality)"

text \<open>The five lists of per-token tensors, the running token index and the map from
  a modality to the index of its aggregated token.\<close>

record tok_lists =
  input_ids_list :: "int list list"
  token_type_ids_list :: "int list list"
  position_ids_list :: "int list list"
  features_list :: "matrix list"
  attention_mask_list :: "int list list"
  tok_id :: nat
  modality_to_tok_map :: "string \<rightharpoonup> nat"

text \<open>Lines 360-368: the [CLS] token.\<close>

definition cls_token :: "config \<Rightarrow> nat \<Rightarrow> tok_lists" where
  "cls_token cfg b =
     \<lparr>input_ids_list = [full b 0],
      token_type_ids_list = [full b 0],
      position_ids_list = [full b 0],
      features_list = [replicate b (replicate (same_dim cfg) 0)],
      attention_mask_list = [full b 1],
      tok_id = 0,
      modality_to_tok_map = Map.empty\<rparr>"

text \<open>Lines 389-405: the aggregated token of a modality.\<close>

definition agg_token ::
  "config \<Rightarrow> modules \<Rightarrow> forward_input \<Rightarrow> (string \<Rightarrow> int list) \<Rightarrow> nat \<Rightarrow> string \<Rightarrow> tok_lists \<Rightarrow> tok_lists" where
  "agg_token cfg mods inp ind b modality st =
     (let token_type = expert_idx cfg modality;
          tok_id' = tok_id st + 1
      in st\<lparr>tok_id := tok_id',
            modality_to_tok_map := (modality_to_tok_map st)(modality \<mapsto> tok_id'),
            input_ids_list := input_ids_list st @ [full b 2],
            token_type_ids_list := token_type_ids_list st @ [full b token_type],
            position_ids_list := position_ids_list st @ [full b 0],
            features_list := features_list st @
              (if out_tok cfg = ''sep'' then [replicate b (replicate (same_dim cfg) 0)]
               else if out_tok cfg = ''mxp'' then [maxp_experts mods inp modality]
               else if out_tok cfg = ''mnp'' then [mnp_experts mods inp modality]
               else []),
            attention_mask_list := attention_mask_list st @ [ind modality]\<rparr>)"

text \<open>Lines 407-422: the token of one temporal feature.\<close>

definition frame_token ::
  "config \<Rightarrow> modules \<Rightarrow> forward_input \<Rightarrow> nat \<Rightarrow> string \<Rightarrow> nat \<Rightarrow> tok_lists \<Rightarrow> error + tok_lists" where
  "frame_token cfg mods inp b modality frame_id st =
     bindE (if pos_enc cfg = ''ordr'' then Inr [full b (int frame_id + 1)]
            else if pos_enc cfg = ''tint''
              then bindE (column (experts_feats_t cfg inp modality) frame_id) (\<lambda>c. Inr [c])
            else if pos_enc cfg = ''type'' then Inr [full b 1]
            else Inr []) (\<lambda>position.
     bindE (column (experts_feats cfg mods inp modality) frame_id) (\<lambda>feature.
     bindE (column (features_ind inp modality) frame_id) (\<lambda>mask.
     Inr (st\<lparr>position_ids_list := position_ids_list st @ position,
              tok_id := tok_id st + 1,
              input_ids_list := input_ids_list st @ [full b 6],
              token_type_ids_list := token_type_ids_list st @ [full b (expert_idx cfg modality)],
              features_list := features_list st @ [feature],
              attention_mask_list := attention_mask_list st @ [mask]\<rparr>))))"

text \<open>Lines 386-422: the tokens of one modality.\<close>

definition modality_tokens ::
  "config \<Rightarrow> modules \<Rightarrow> forward_input \<Rightarrow> (string \<Rightarrow> int list) \<Rightarrow> nat \<Rightarrow> string \<Rightarrow> tok_lists \<Rightarrow> error + tok_lists" where
  "modality_tokens cfg mods inp ind b modality st =
     (let st' = (if vid_inp cfg \<in> set [''agg'', ''both'', ''all'']
                 then agg_token cfg mods inp ind b modality st else st)
      in if vid_inp cfg \<in> set [''temp'', ''both'', ''all'']
         then foldE (frame_token cfg mods inp b modality)
                [0..<max_expert_tokens cfg mods inp modality] st'
         else Inr st')"

text \<open>Lines 351-422: the whole sequence.\<close>

definition video_tokens ::
  "config \<Rightarrow> modules \<Rightarrow> forward_input \<Rightarrow> (string \<Rightarrow> int list) \<Rightarrow> nat \<Rightarrow> error + tok_lists" where
  "video_tokens cfg mods inp ind b =
     foldE (modality_tokens cfg mods inp ind b) (modalities cfg) (cls_token cfg b)"

text \<open>Lines 424-431: the lists stacked into the tensors handed to the video encoder.\<close>

definition video_bert_input ::
  "config \<Rightarrow> modules \<Rightarrow> forward_input \<Rightarrow> (string \<Rightarrow> int list) \<Rightarrow> nat
     \<Rightarrow> error + (bert_input \<times> (string \<rightharpoonup> nat))" where
  "video_bert_input cfg mods inp ind b =
     bindE (video_tokens cfg mods inp ind b) (\<lambda>st.
     bindE (stack_dim1 (features_list st)) (\<lambda>features'.
     bindE (stack_dim1 (input_ids_list st)) (\<lambda>input_ids'.
     bindE (stack_dim1 (token_type_ids_list st)) (\<lambda>token_type_ids'.
     bindE (if pos_enc cfg \<noteq> ''none''
            then bindE (stack_dim1 (position_ids_list st)) (\<lambda>p. Inr (Some p))
            else Inr None) (\<lambda>position_ids'.
     bindE (stack_dim1 (attention_mask_list st)) (\<lambda>attention_mask'.
     Inr (\<lparr>input_ids = input_ids',
           attention_mask = attention_mask',
           token_type_ids = token_type_ids',
           position_ids = position_ids',
           bert_features = Some features'\<rparr>,
          modality_to_tok_map st)))))))"

subsection \<open>The video encoder\<close>

record video_out =
  vid_embd :: matrix
  vid_avg :: matrix
  experts :: "string \<rightharpoonup> matrix"

text \<open>Lines 453-454: \<^verbatim>\<open>experts[modality] = last_layer[:, modality_to_tok_map[modality]]\<close>.\<close>

definition expert_of :: "(string \<rightharpoonup> nat) \<Rightarrow> real list list list \<Rightarrow> string \<Rightarrow> error + matrix" where
  "expert_of tok_map last_layer modality =
     (case tok_map modality of
        None \<Rightarrow> Inl KeyError
      | Some k \<Rightarrow> column last_layer k)"

text \<open>Lines 349-454. Without \<^verbatim>\<open>vid_cont == 'bert'\<close> the names \<^verbatim>\<open>vid_embd\<close>
  and \<^verbatim>\<open>vid_avg\<close> stay unbound and \<^verbatim>\<open>experts\<close> stays empty.\<close>

definition video_branch ::
  "config \<Rightarrow> modules \<Rightarrow> forward_input \<Rightarrow> (string \<Rightarrow> int list) \<Rightarrow> nat \<Rightarrow> error + video_out option" where
  "video_branch cfg mods inp ind b =
     (if vid_cont cfg = ''bert'' then
        bindE (video_bert_input cfg mods inp ind b) (\<lambda>(bi, tok_map).
        bindE (vid_bert mods bi) (\<lambda>last_layer.
        bindE (column last_layer 0) (\<lambda>vid_embd'.
        bindE (mean_dim1 (map tl last_layer)) (\<lambda>vid_avg'.
        bindE (mapE (expert_of tok_map last_layer) (modalities cfg)) (\<lambda>es.
        Inr (Some \<lparr>vid_embd = vid_embd',
                   vid_avg = vid_avg',
                   experts = map_of (zip (modalities cfg) es)\<rparr>))))))
      else Inr None)"

subsection \<open>Modality weights\<close>

text \<open>The quotient of a norm by a sum of norms; the sum is zero only when the
  norm is, and \<open>0 / 0\<close> is NaN.\<close>

definition div_s :: "real \<Rightarrow> real \<Rightarrow> scalar" where
  "div_s a c = (if c = 0 then NaN else Num (a / c))"

fun mul_s :: "scalar \<Rightarrow> scalar \<Rightarrow> scalar" where
  "mul_s (Num a) (Num c) = Num (a * c)"
| "mul_s _ _ = NaN"

text \<open>\<^verbatim>\<open>compute_weights_from_norm\<close>, on the two-dimensional embeddings that
  \<^verbatim>\<open>forward\<close> passes.\<close>

definition compute_weights_from_norm ::
  "string list \<Rightarrow> (string \<rightharpoonup> matrix) \<Rightarrow> error + scalar list list" where
  "compute_weights_from_norm mods_list embds =
     (case mods_list of
        [] \<Rightarrow> Inl IndexError
      | m0 # _ \<Rightarrow>
         (case embds m0 of
            None \<Rightarrow> Inl KeyError
          | Some e0 \<Rightarrow>
             (let b = length e0
              in bindE (mapE (\<lambda>modality.
                          case embds modality of
                            None \<Rightarrow> Inl KeyError
                          | Some e \<Rightarrow> if length e = b then Inr (map norm2 e) else Inl RuntimeError)
                        mods_list) (\<lambda>norms.
                 Inr (map (\<lambda>i. let norm_embd = map (\<lambda>col. col ! i) norms;
                                   sum_norm = sum_list norm_embd
                               in map (\<lambda>v. div_s v sum_norm) norm_embd)
                        [0..<b])))))"

text \<open>\<^verbatim>\<open>compute_weights_from_emb\<close> on a two-dimensional embedding reads
  \<^verbatim>\<open>self.moe_vid_dropout\<close>, which the constructor never sets.\<close>

definition compute_weights_from_emb :: "matrix \<Rightarrow> error + scalar list list" where
  "compute_weights_from_emb embd = Inl AttributeError"

text \<open>Elementwise product of two weight matrices, a first dimension of size 1
  being broadcast.\<close>

definition mul_weights :: "scalar list list \<Rightarrow> scalar list list \<Rightarrow> error + scalar list list" where
  "mul_weights w a =
     (if length w = length a then Inr (map2 (map2 mul_s) w a)
      else if length w = 1 then Inr (map (map2 mul_s (hd w)) a)
      else if length a = 1 then Inr (map (\<lambda>r. map2 mul_s r (hd a)) w)
      else Inl RuntimeError)"

text \<open>\<^verbatim>\<open>nn.functional.normalize(w, p=1, dim=-1)\<close> of one row of weights.\<close>

definition normalize_l1 :: "scalar list \<Rightarrow> scalar list" where
  "normalize_l1 w =
     (if list_ex (\<lambda>v. v = NaN) w then map (\<lambda>_. NaN) w
      else (let n = sum_list (map (\<lambda>v. case v of Num a \<Rightarrow> \<bar>a\<bar> | NaN \<Rightarrow> 0) w)
            in map (\<lambda>v. case v of Num a \<Rightarrow> Num (a / max n normalize_eps) | NaN \<Rightarrow> NaN) w))"

text \<open>Lines 456-474.\<close>

definition video_weights ::
  "config \<Rightarrow> (string \<Rightarrow> int list) \<Rightarrow> nat \<Rightarrow> nat \<Rightarrow> video_out option \<Rightarrow> error + scalar list list" where
  "video_weights cfg ind b m vo =
     bindE (if vid_wgh cfg = ''nrm''
            then compute_weights_from_norm (modalities cfg)
                   (case vo of None \<Rightarrow> Map.empty | Some v \<Rightarrow> experts v)
            else if vid_wgh cfg = ''emb''
            then (case vo of None \<Rightarrow> Inl UnboundLocalError
                  | Some v \<Rightarrow> compute_weights_from_emb (vid_embd v))
            else if vid_wgh cfg = ''none'' then Inr (replicate b (replicate m (Num 1)))
            else Inl NotImplementedError) (\<lambda>vid_weights.
     bindE (if \<not> keep_missing_modalities cfg
            then (if list_all (\<lambda>modality. length (ind modality) = b \<or> length (ind modality) = 1)
                       (modalities cfg)
                  then mul_weights vid_weights
                         (map (\<lambda>i. map (\<lambda>modality.
                                  Num (of_int (ind modality ! (if length (ind modality) = b then i else 0))))
                                (modalities cfg))
                            [0..<b])
                  else Inl RuntimeError)
            else Inr vid_weights) (\<lambda>vid_weights'.
     Inr (map normalize_l1 vid_weights')))"

text \<open>Lines 476-485. The embedding \<^verbatim>\<open>text\<close> is two-dimensional.\<close>

definition text_weights ::
  "config \<Rightarrow> matrix \<Rightarrow> nat \<Rightarrow> nat \<Rightarrow> nat \<Rightarrow> error + scalar list list list" where
  "text_weights cfg text b captions_per_video m =
     bindE (if txt_wgh cfg = ''emb''
            then bindE (compute_weights_from_emb text) (\<lambda>w. Inr [w])
            else if txt_wgh cfg = ''none''
            then Inr (replicate b (replicate captions_per_video (replicate m (Num 1))))
            else Inl NotImplementedError) (\<lambda>text_weights'.
     Inr (map (map normalize_l1) text_weights'))"

subsection \<open>The forward pass\<close>

definition MMTwins_forward ::
  "config \<Rightarrow> modules \<Rightarrow> forward_input \<Rightarrow> string \<Rightarrow> error + returned" where
  "MMTwins_forward cfg mods inp out =
     bindE (compute_ind cfg inp) (\<lambda>ind.
     let b = length (token_ids inp);
         captions_per_video = size1 (token_ids inp);
         m = length (modalities cfg)
     in bindE (text_branch mods inp) (\<lambda>(text, text_avg).
        bindE (video_branch cfg mods inp ind b) (\<lambda>vo.
        bindE (video_weights cfg ind b m vo) (\<lambda>vid_weights.
        bindE (text_weights cfg text b captions_per_video m) (\<lambda>text_weights'.
        case vo of
          None \<Rightarrow> Inl UnboundLocalError
        | Some v \<Rightarrow>
           (let vid_reps = map (vid_avg2rep mods) (vid_avg v);
                txt_reps = map (txt_avg2rep mods) text_avg
            in bindE (bn mods (map (vid_projector mods) vid_reps)) (\<lambda>vid_embd_CL.
               bindE (bn mods (map (vid_projector mods) txt_reps)) (\<lambda>txt_embd_CL.
               if out = ''conf'' then
                 bindE (sharded_cross_view_inner_product vid_reps txt_reps (modalities cfg))
                   (\<lambda>cross_view_conf_matrix.
                 Inr (CrossViewConf (modalities cfg) cross_view_conf_matrix))
               else if out = ''corr'' then
                 bindE (cpt_cross_corrletaion_matrix vid_embd_CL txt_embd_CL (modalities cfg))
                   (\<lambda>corrletaion_matrix.
                 Inr (Correlation (modalities cfg) corrletaion_matrix))
               else Inr (Representations vid_reps txt_reps)))))))))"

section \<open>Token-level max-mean similarity\<close>












section \<open>Specification-side and auxiliary definitions\<close>

subsection \<open>Max-margin ranking loss\<close>


text \<open>Auxiliary notions of the proofs: an \<open>n\<close> by \<open>n\<close> table written out in
  row-major order, the entry of \<^verbatim>\<open>keep\<close>, the two compared columns zipped, and
  the flags that \<^verbatim>\<open>nonzero\<close> reads.\<close>

definition tab :: "nat \<Rightarrow> (nat \<Rightarrow> nat \<Rightarrow> 'a) \<Rightarrow> 'a list" where
  "tab n F = concat (map (\<lambda>i. map (\<lambda>j. F i j) [0..<n]) [0..<n])"




subsection \<open>Cross-entropy losses\<close>



subsection \<open>Similarity scoring\<close>



subsection \<open>The MMTwins forward pass\<close>

text \<open>The row of input ids the specification describes: [CLS] (0), then for every
  modality one aggregated token (2) and \<open>T\<close> temporal tokens (6).\<close>

definition token_row :: "(string \<Rightarrow> nat) \<Rightarrow> string list \<Rightarrow> int list" where
  "token_row T ms = 0 # concat (map (\<lambda>modality. 2 # replicate (T modality) 6) ms)"

text \<open>Well-shaped video inputs: for every modality the tensors of the batch have
  \<open>b\<close> samples, and the temporal ones have the same number of frames in every
  sample.\<close>

definition wf_video_input :: "config \<Rightarrow> forward_input \<Rightarrow> (string \<Rightarrow> int list) \<Rightarrow> nat \<Rightarrow> bool" where
  "wf_video_input cfg inp ind b \<longleftrightarrow>
     list_all (\<lambda>modality.
        length (features inp modality) = b
      \<and> list_all (\<lambda>s. length s = size1 (features inp modality)) (features inp modality)
      \<and> length (features_ind inp modality) = b
      \<and> list_all (\<lambda>r. length r = size1 (features inp modality)) (features_ind inp modality)
      \<and> length (features_t inp modality) = b
      \<and> list_all (\<lambda>r. length r = size1 (features inp modality)) (features_t inp modality)
      \<and> length (features_avgpool inp modality) = b
      \<and> length (features_maxpool inp modality) = b
      \<and> length (ind modality) = b) (modalities cfg)"

text \<open>Every per-token tensor collected so far has batch size \<open>b\<close>.\<close>

definition batch_lists :: "nat \<Rightarrow> tok_lists \<Rightarrow> bool" where
  "batch_lists b st \<longleftrightarrow>
     list_all (\<lambda>x. length x = b) (input_ids_list st)
   \<and> list_all (\<lambda>x. length x = b) (token_type_ids_list st)
   \<and> list_all (\<lambda>x. length x = b) (position_ids_list st)
   \<and> list_all (\<lambda>x. length x = b) (features_list st)
   \<and> list_all (\<lambda>x. length x = b) (attention_mask_list st)
   \<and> input_ids_list st \<noteq> [] \<and> token_type_ids_list st \<noteq> [] \<and> position_ids_list st \<noteq> []
   \<and> features_list st \<noteq> [] \<and> attention_mask_list st \<noteq> []"

text \<open>A small concrete run, used to instantiate the theorems: a batch of one video
  with two modalities (two frames of \<open>rgb\<close>, one of \<open>audio\<close>) and one caption of two
  words; the encoders return the token type ids and the token ids as the last layer,
  the video projector doubles, the caption projector triples, and the remaining
  layers are identities.\<close>

definition ex_cfg :: config where
  "ex_cfg =
     \<lparr>modalities = [''rgb'', ''audio''],
      expert_idx = (\<lambda>modality. if modality = ''rgb'' then 1 else 2),
      same_dim = 1,
      keep_missing_modalities = False,
      txt_wgh = ''none'',
      vid_inp = ''both'',
      vid_cont = ''bert'',
      vid_wgh = ''nrm'',
      pos_enc = ''ordr'',
      out_tok = ''mxp'',
      max_position_embeddings = 8\<rparr>"

definition ex_inp :: forward_input where
  "ex_inp =
     \<lparr>token_ids = [[[[5, 1], [7, 1]]]],
      features = (\<lambda>modality. if modality = ''rgb'' then [[[1], [2]]] else [[[3]]]),
      features_t = (\<lambda>modality. if modality = ''rgb'' then [[0, 1]] else [[0]]),
      features_ind = (\<lambda>modality. if modality = ''rgb'' then [[1, 1]] else [[1]]),
      features_avgpool = (\<lambda>modality. [[1]]),
      features_maxpool = (\<lambda>modality. [[2]])\<rparr>"

definition ex_mods :: modules where
  "ex_mods =
     \<lparr>video_dim_reduce_fc = (\<lambda>modality x. x),
      vid_bert = (\<lambda>bi. Inr (map (map (\<lambda>i. [real_of_int i])) (token_type_ids bi))),
      txt_bert = (\<lambda>bi. Inr (map (map (\<lambda>i. [real_of_int i])) (input_ids bi))),
      txt_avg2rep = (\<lambda>x. x),
      vid_avg2rep = (\<lambda>x. x),
      txt_projector = map (\<lambda>v. 3 * v),
      vid_projector = map (\<lambda>v. 2 * v),
      bn = Inr\<rparr>"

definition ex_ind :: "string \<Rightarrow> int list" where
  "ex_ind =
     (\<lambda>modality. case map_of [(''rgb'', [1]), (''audio'', [1])] modality of
                    Some v \<Rightarrow> v
                  | None \<Rightarrow> [])"

text \<open>Lines 487-519 of \<^verbatim>\<open>forward\<close>, as a function of the values they read, and
  the forward pass without the two weighting steps (lines 456-485); they serve to
  state what the value returned is computed from.\<close>

definition forward_tail ::
  "config \<Rightarrow> modules \<Rightarrow> string \<Rightarrow> matrix \<Rightarrow> video_out option \<Rightarrow> error + returned" where
  "forward_tail cfg mods out text_avg vo =
     (case vo of
        None \<Rightarrow> Inl UnboundLocalError
      | Some v \<Rightarrow>
         (let vid_reps = map (vid_avg2rep mods) (vid_avg v);
              txt_reps = map (txt_avg2rep mods) text_avg
          in bindE (bn mods (map (vid_projector mods) vid_reps)) (\<lambda>vid_embd_CL.
             bindE (bn mods (map (vid_projector mods) txt_reps)) (\<lambda>txt_embd_CL.
             if out = ''conf'' then
               bindE (sharded_cross_view_inner_product vid_reps txt_reps (modalities cfg))
                 (\<lambda>cross_view_conf_matrix.
               Inr (CrossViewConf (modalities cfg) cross_view_conf_matrix))
             else if out = ''corr'' then
               bindE (cpt_cross_corrletaion_matrix vid_embd_CL txt_embd_CL (modalities cfg))
                 (\<lambda>corrletaion_matrix.
               Inr (Correlation (modalities cfg) corrletaion_matrix))
             else Inr (Representations vid_reps txt_reps)))))"

definition forward_payload ::
  "config \<Rightarrow> modules \<Rightarrow> forward_input \<Rightarrow> string \<Rightarrow> error + returned" where
  "forward_payload cfg mods inp out =
     bindE (compute_ind cfg inp) (\<lambda>ind.
     bindE (text_branch mods inp) (\<lambda>(text, text_avg).
     bindE (video_branch cfg mods inp ind (length (token_ids inp))) (\<lambda>vo.
     forward_tail cfg mods out text_avg vo)))"

definition ex_tok_map :: "string \<rightharpoonup> nat" where
  "ex_tok_map = [''rgb'' \<mapsto> 1, ''audio'' \<mapsto> 4]"

definition ex_bert_input :: bert_input where
  "ex_bert_input =
     \<lparr>input_ids = [[0, 2, 6, 6, 2, 6]],
      attention_mask = [[1, 1, 1, 1, 1, 1]],
      token_type_ids = [[0, 1, 1, 1, 2, 2]],
      position_ids = Some [[0, 0, 1, 2, 0, 1]],
      bert_features = Some [[[0], [1], [1], [1], [1], [1]]]\<rparr>"

definition ex_video_out :: video_out where
  "ex_video_out =
     \<lparr>vid_embd = [[0]],
      vid_avg = [[7 / 5]],
      experts = map_of [(''rgb'', [[1]]), (''audio'', [[2]])]\<rparr>"

text \<open>Two configurations that differ at most in the weighting options
  \<^verbatim>\<open>vid_wgh\<close>, \<^verbatim>\<open>txt_wgh\<close> and \<^verbatim>\<open>keep_missing_modalities\<close>, and two sets of
  modules that differ at most in \<^verbatim>\<open>txt_projector\<close>.\<close>

definition agree_but_weights :: "config \<Rightarrow> config \<Rightarrow> bool" where
  "agree_but_weights cfg cfg' \<longleftrightarrow>
     modalities cfg' = modalities cfg \<and> expert_idx cfg' = expert_idx cfg
   \<and> same_dim cfg' = same_dim cfg \<and> vid_inp cfg' = vid_inp cfg \<and> vid_cont cfg' = vid_cont cfg
   \<and> pos_enc cfg' = pos_enc cfg \<and> out_tok cfg' = out_tok cfg
   \<and> max_position_embeddings cfg' = max_position_embeddings cfg"

definition agree_but_txt_projector :: "modules \<Rightarrow> modules \<Rightarrow> bool" where
  "agree_but_txt_projector mods mods' \<longleftrightarrow>
     video_dim_reduce_fc mods' = video_dim_reduce_fc mods \<and> vid_bert mods' = vid_bert mods
   \<and> txt_bert mods' = txt_bert mods \<and> txt_avg2rep mods' = txt_avg2rep mods
   \<and> vid_avg2rep mods' = vid_avg2rep mods \<and> vid_projector mods' = vid_projector mods
   \<and> bn mods' = bn mods"

subsection \<open>Token-level max-mean similarity\<close>








section \<open>Max-margin ranking loss: the closed form\<close>

lemma length_concat_const:
  "(\<And>r. r \<in> set xs \<Longrightarrow> length r = n) \<Longrightarrow> length (concat xs) = length xs * n"
  by (induction xs) auto

lemma length_tab [simp]: "length (tab n F) = n * n"
  unfolding tab_def by (subst length_concat_const[where n = n]) auto
































section \<open>Cross-entropy losses: results and effects\<close>




















section \<open>Similarity scoring: cosine similarity and its range\<close>

















lemma norm2_single: "norm2 [a] = \<bar>a\<bar>"
  by (simp add: norm2_def)





section \<open>The MMTwins forward pass: the video token sequence\<close>

lemma bindE_eq_Inr: "bindE x f = Inr y \<longleftrightarrow> (\<exists>a. x = Inr a \<and> f a = Inr y)"
  by (cases x) simp_all

lemma size1_map_map: "size1 (map (map f) x) = size1 x"
  by (cases x) (simp_all add: size1_def)

lemma max_expert_tokens_eq: "max_expert_tokens cfg mods inp modality = size1 (features inp modality)"
  by (simp add: max_expert_tokens_def experts_feats_def size1_map_map)

lemma frame_token_ids:
  "frame_token cfg mods inp b modality frame_id st = Inr st' \<Longrightarrow>
     input_ids_list st' = input_ids_list st @ [full b 6]"
  by (auto simp: frame_token_def bindE_eq_Inr)

lemma frames_ids:
  "foldE (frame_token cfg mods inp b modality) fs st = Inr st' \<Longrightarrow>
     input_ids_list st' = input_ids_list st @ replicate (length fs) (full b 6)"
proof (induction fs arbitrary: st)
  case Nil
  then show ?case by simp
next
  case (Cons f fs)
  from Cons.prems obtain st1 where
    st1: "frame_token cfg mods inp b modality f st = Inr st1"
    and rest: "foldE (frame_token cfg mods inp b modality) fs st1 = Inr st'"
    by (auto simp: bindE_eq_Inr)
  show ?case
    using Cons.IH[OF rest] frame_token_ids[OF st1] by (simp add: replicate_app_Cons_same)
qed

lemma agg_token_ids: "input_ids_list (agg_token cfg mods inp ind b modality st) = input_ids_list st @ [full b 2]"
  by (simp add: agg_token_def Let_def)

lemma modality_tokens_ids:
  assumes "vid_inp cfg = ''both'' \<or> vid_inp cfg = ''all''"
    and "modality_tokens cfg mods inp ind b modality st = Inr st'"
  shows "input_ids_list st' =
     input_ids_list st @ full b 2 # replicate (size1 (features inp modality)) (full b 6)"
proof -
  have "foldE (frame_token cfg mods inp b modality) [0..<max_expert_tokens cfg mods inp modality]
          (agg_token cfg mods inp ind b modality st) = Inr st'"
    using assms by (auto simp: modality_tokens_def Let_def)
  from frames_ids[OF this] show ?thesis
    by (simp add: agg_token_ids max_expert_tokens_eq)
qed

lemma modalities_ids:
  assumes "vid_inp cfg = ''both'' \<or> vid_inp cfg = ''all''"
    and "foldE (modality_tokens cfg mods inp ind b) ms st = Inr st'"
  shows "input_ids_list st' =
     input_ids_list st @ concat (map (\<lambda>modality. full b 2 # replicate (size1 (features inp modality)) (full b 6)) ms)"
  using assms(2)
proof (induction ms arbitrary: st)
  case Nil
  then show ?case by simp
next
  case (Cons m ms)
  from Cons.prems obtain st1 where
    st1: "modality_tokens cfg mods inp ind b m st = Inr st1"
    and rest: "foldE (modality_tokens cfg mods inp ind b) ms st1 = Inr st'"
    by (auto simp: bindE_eq_Inr)
  show ?case
    using Cons.IH[OF rest] modality_tokens_ids[OF assms(1) st1] by simp
qed


lemma video_tokens_ids:
  assumes "vid_inp cfg = ''both'' \<or> vid_inp cfg = ''all''"
    and "video_tokens cfg mods inp ind b = Inr st"
  shows "input_ids_list st = map (full b) (token_row (\<lambda>modality. size1 (features inp modality)) (modalities cfg))"
  using modalities_ids[OF assms(1) assms(2)[unfolded video_tokens_def]]
  by (simp add: cls_token_def token_row_def map_concat comp_def)

lemma stack_full:
  assumes "cs \<noteq> []"
  shows "stack_dim1 (map (full b) cs) = Inr (replicate b cs)"
proof -
  obtain c rest where cs: "cs = c # rest"
    using assms by (cases cs) auto
  have "map (\<lambda>i. map (\<lambda>t. t ! i) (map (full b) cs)) [0..<b] = replicate b cs"
    by (intro nth_equalityI) (simp_all add: full_def)
  then show ?thesis
    by (simp add: stack_dim1_def cs full_def list_all_iff)
qed

lemma length_token_row: "length (token_row T ms) = 1 + sum_list (map (\<lambda>modality. 1 + T modality) ms)"
  by (simp add: token_row_def length_concat comp_def)


lemma column_ok:
  assumes "list_all (\<lambda>row. length row = T) x" and "k < T"
  shows "column x k = Inr (map (\<lambda>row. row ! k) x)"
  using assms by (auto simp: column_def list_all_iff)

lemma wf_modality:
  assumes "wf_video_input cfg inp ind b" and "modality \<in> set (modalities cfg)"
  shows "length (features inp modality) = b"
    and "list_all (\<lambda>s. length s = size1 (features inp modality)) (features inp modality)"
    and "length (features_ind inp modality) = b"
    and "list_all (\<lambda>r. length r = size1 (features inp modality)) (features_ind inp modality)"
    and "length (features_t inp modality) = b"
    and "list_all (\<lambda>r. length r = size1 (features inp modality)) (features_t inp modality)"
    and "length (features_avgpool inp modality) = b"
    and "length (features_maxpool inp modality) = b"
    and "length (ind modality) = b"
  using assms by (simp_all add: wf_video_input_def list_all_iff)

lemma frame_token_ok:
  assumes wf: "wf_video_input cfg inp ind b" and m: "modality \<in> set (modalities cfg)"
    and k: "frame_id < size1 (features inp modality)" and ok: "batch_lists b st"
  shows "\<exists>st'. frame_token cfg mods inp b modality frame_id st = Inr st' \<and> batch_lists b st'"
proof -
  note w = wf_modality[OF wf m]
  have t: "column (experts_feats_t cfg inp modality) frame_id
             = Inr (map (\<lambda>row. row ! frame_id) (experts_feats_t cfg inp modality))"
    using w(6) by (intro column_ok[OF _ k]) (simp add: experts_feats_t_def list_all_iff)
  have f: "column (experts_feats cfg mods inp modality) frame_id
             = Inr (map (\<lambda>row. row ! frame_id) (experts_feats cfg mods inp modality))"
    using w(2) by (intro column_ok[OF _ k]) (simp add: experts_feats_def list_all_iff)
  have i: "column (features_ind inp modality) frame_id
             = Inr (map (\<lambda>row. row ! frame_id) (features_ind inp modality))"
    using w(4) by (intro column_ok[OF _ k])
  have lens: "length (experts_feats_t cfg inp modality) = b"
      "length (experts_feats cfg mods inp modality) = b"
    using w(1,5) by (simp_all add: experts_feats_t_def experts_feats_def)
  show ?thesis
    using ok w(3) lens
    by (simp add: frame_token_def t f i batch_lists_def full_def)
qed

lemma frames_ok:
  assumes wf: "wf_video_input cfg inp ind b" and m: "modality \<in> set (modalities cfg)"
    and fs: "\<forall>k\<in>set fs. k < size1 (features inp modality)" and ok: "batch_lists b st"
  shows "\<exists>st'. foldE (frame_token cfg mods inp b modality) fs st = Inr st' \<and> batch_lists b st'"
  using fs ok
proof (induction fs arbitrary: st)
  case Nil
  then show ?case by simp
next
  case (Cons k fs)
  obtain st1 where st1: "frame_token cfg mods inp b modality k st = Inr st1" "batch_lists b st1"
    using frame_token_ok[OF wf m _ Cons.prems(2), of k mods] Cons.prems(1) by auto
  show ?case
    using Cons.IH[OF _ st1(2)] Cons.prems(1) by (simp add: st1(1))
qed

lemma agg_token_ok:
  assumes wf: "wf_video_input cfg inp ind b" and m: "modality \<in> set (modalities cfg)"
    and ok: "batch_lists b st"
  shows "batch_lists b (agg_token cfg mods inp ind b modality st)"
  using ok wf_modality(7,8,9)[OF wf m]
  by (simp add: agg_token_def Let_def batch_lists_def full_def maxp_experts_def mnp_experts_def)

lemma modality_tokens_ok:
  assumes wf: "wf_video_input cfg inp ind b" and m: "modality \<in> set (modalities cfg)"
    and ok: "batch_lists b st"
  shows "\<exists>st'. modality_tokens cfg mods inp ind b modality st = Inr st' \<and> batch_lists b st'"
proof -
  have fs: "\<forall>k\<in>set [0..<max_expert_tokens cfg mods inp modality]. k < size1 (features inp modality)"
    by (simp add: max_expert_tokens_eq)
  show ?thesis
    using frames_ok[OF wf m fs ok, of mods]
      frames_ok[OF wf m fs agg_token_ok[OF wf m ok, of mods], of mods]
      agg_token_ok[OF wf m ok, of mods] ok
    by (simp add: modality_tokens_def Let_def)
qed

lemma modalities_ok:
  assumes wf: "wf_video_input cfg inp ind b" and ms: "set ms \<subseteq> set (modalities cfg)"
    and ok: "batch_lists b st"
  shows "\<exists>st'. foldE (modality_tokens cfg mods inp ind b) ms st = Inr st' \<and> batch_lists b st'"
  using ms ok
proof (induction ms arbitrary: st)
  case Nil
  then show ?case by simp
next
  case (Cons m ms)
  obtain st1 where st1: "modality_tokens cfg mods inp ind b m st = Inr st1" "batch_lists b st1"
    using modality_tokens_ok[OF wf _ Cons.prems(2), of m mods] Cons.prems(1) by auto
  show ?case
    using Cons.IH[OF _ st1(2)] Cons.prems(1) by (simp add: st1(1))
qed

lemma cls_token_ok: "batch_lists b (cls_token cfg b)"
  by (simp add: cls_token_def batch_lists_def full_def)

lemma video_tokens_ok:
  assumes "wf_video_input cfg inp ind b"
  shows "\<exists>st. video_tokens cfg mods inp ind b = Inr st \<and> batch_lists b st"
  unfolding video_tokens_def by (rule modalities_ok[OF assms subset_refl cls_token_ok])

lemma stack_ok:
  assumes "xs \<noteq> []" and "list_all (\<lambda>x. length x = b) xs"
  shows "\<exists>r. stack_dim1 xs = Inr r"
  using assms by (cases xs) (auto simp: stack_dim1_def list_all_iff)

lemma video_bert_input_ok:
  assumes "wf_video_input cfg inp ind b"
  shows "\<exists>bi tok_map. video_bert_input cfg mods inp ind b = Inr (bi, tok_map)"
proof -
  obtain st where st: "video_tokens cfg mods inp ind b = Inr st" "batch_lists b st"
    using video_tokens_ok[OF assms] by blast
  obtain f i t p a where
    "stack_dim1 (features_list st) = Inr f" "stack_dim1 (input_ids_list st) = Inr i"
    "stack_dim1 (token_type_ids_list st) = Inr t" "stack_dim1 (position_ids_list st) = Inr p"
    "stack_dim1 (attention_mask_list st) = Inr a"
    using st(2) unfolding batch_lists_def by (metis stack_ok)
  then show ?thesis
    by (simp add: video_bert_input_def st(1))
qed

lemma video_bert_input_ids:
  assumes "vid_inp cfg = ''both'' \<or> vid_inp cfg = ''all''"
    and "video_bert_input cfg mods inp ind b = Inr (bi, tok_map)"
  shows "input_ids bi = replicate b (token_row (\<lambda>modality. size1 (features inp modality)) (modalities cfg))"
proof -
  obtain st where st: "video_tokens cfg mods inp ind b = Inr st"
    and ids: "stack_dim1 (input_ids_list st) = Inr (input_ids bi)"
    using assms(2) by (auto simp: video_bert_input_def bindE_eq_Inr)
  have "token_row (\<lambda>modality. size1 (features inp modality)) (modalities cfg) \<noteq> []"
    by (simp add: token_row_def)
  then show ?thesis
    using ids unfolding video_tokens_ids[OF assms(1) st] by (simp add: stack_full)
qed

lemma ex_cfg_fields:
  "modalities ex_cfg = [''rgb'', ''audio'']" "expert_idx ex_cfg ''rgb'' = 1"
  "expert_idx ex_cfg ''audio'' = 2" "same_dim ex_cfg = 1" "keep_missing_modalities ex_cfg = False"
  "txt_wgh ex_cfg = ''none''" "vid_inp ex_cfg = ''both''" "vid_cont ex_cfg = ''bert''"
  "vid_wgh ex_cfg = ''nrm''" "pos_enc ex_cfg = ''ordr''" "out_tok ex_cfg = ''mxp''"
  by (simp_all add: ex_cfg_def)

lemma ex_inp_fields:
  "token_ids ex_inp = [[[[5, 1], [7, 1]]]]"
  "features ex_inp ''rgb'' = [[[1], [2]]]" "features ex_inp ''audio'' = [[[3]]]"
  "features_ind ex_inp ''rgb'' = [[1, 1]]" "features_ind ex_inp ''audio'' = [[1]]"
  "features_t ex_inp ''rgb'' = [[0, 1]]" "features_t ex_inp ''audio'' = [[0]]"
  "features_avgpool ex_inp modality = [[1]]" "features_maxpool ex_inp modality = [[2]]"
  by (simp_all add: ex_inp_def)

lemma ex_mods_fields:
  "video_dim_reduce_fc ex_mods modality x = x"
  "vid_bert ex_mods bi = Inr (map (map (\<lambda>i. [real_of_int i])) (token_type_ids bi))"
  "txt_bert ex_mods bi = Inr (map (map (\<lambda>i. [real_of_int i])) (input_ids bi))"
  "txt_avg2rep ex_mods x = x" "vid_avg2rep ex_mods x = x"
  "txt_projector ex_mods x = map (\<lambda>v. 3 * v) x" "vid_projector ex_mods x = map (\<lambda>v. 2 * v) x"
  "bn ex_mods y = Inr y"
  by (simp_all add: ex_mods_def)

lemma ex_ind_values: "ex_ind ''rgb'' = [1]" "ex_ind ''audio'' = [1]"
  by (simp_all add: ex_ind_def)

lemma ex_wf_video_input: "wf_video_input ex_cfg ex_inp ex_ind 1"
  by (simp add: wf_video_input_def ex_cfg_fields ex_inp_fields ex_ind_values size1_def)

text \<open>
  Claim C10. With \<^verbatim>\<open>vid_inp\<close> equal to \<^verbatim>\<open>both\<close> or \<^verbatim>\<open>all\<close>, the input ids
  that the \<^verbatim>\<open>vid_cont == 'bert'\<close> branch of \<^verbatim>\<open>forward\<close> assembles for the video
  encoder are, for every sample of the batch, one [CLS] token (0) followed, for each
  modality in order, by one aggregated token (2) and the \<open>T\<close> temporal tokens (6) of
  the modality, \<open>T\<close> being the size of dimension 1 of its features; the sequence has
  length \<open>1 + \<Sum> (1 + T)\<close>. On well-shaped inputs the assembly returns.
\<close>

theorem video_token_sequence_layout:
  assumes "vid_inp cfg = ''both'' \<or> vid_inp cfg = ''all''"
  shows "(\<forall>bi tok_map. video_bert_input cfg mods inp ind b = Inr (bi, tok_map) \<longrightarrow>
            input_ids bi =
              replicate b (0 # concat (map (\<lambda>modality. 2 # replicate (size1 (features inp modality)) 6)
                                          (modalities cfg))))
       \<and> length (0 # concat (map (\<lambda>modality. 2 # replicate (size1 (features inp modality)) (6::int))
                                (modalities cfg)))
           = 1 + (\<Sum>modality\<leftarrow>modalities cfg. 1 + size1 (features inp modality))
       \<and> (wf_video_input cfg inp ind b \<longrightarrow>
            (\<exists>bi tok_map. video_bert_input cfg mods inp ind b = Inr (bi, tok_map)))"
  using video_bert_input_ids[OF assms, of mods inp ind b] video_bert_input_ok[of cfg inp ind b mods]
    length_token_row[of "\<lambda>modality. size1 (features inp modality)" "modalities cfg"]
  unfolding token_row_def by blast


theorem video_token_sequence_layout_witness:
  "(vid_inp ex_cfg = ''both'' \<or> vid_inp ex_cfg = ''all'') \<and> wf_video_input ex_cfg ex_inp ex_ind 1 \<and>
   (\<exists>bi tok_map. video_bert_input ex_cfg ex_mods ex_inp ex_ind 1 = Inr (bi, tok_map) \<and>
      input_ids bi = [[0, 2, 6, 6, 2, 6]]) \<and>
   length [0, 2, 6, 6, 2, 6 :: int] = 1 + ((1 + 2) + (1 + 1))"
proof -
  have v: "vid_inp ex_cfg = ''both'' \<or> vid_inp ex_cfg = ''all''"
    by (simp add: ex_cfg_fields)
  note layout = video_token_sequence_layout[OF v, of ex_mods ex_inp ex_ind 1]
  obtain bi tok_map where r: "video_bert_input ex_cfg ex_mods ex_inp ex_ind 1 = Inr (bi, tok_map)"
    using layout ex_wf_video_input by blast
  have "input_ids bi = [[0, 2, 6, 6, 2, 6]]"
    using layout r by (simp add: ex_cfg_fields ex_inp_fields size1_def numeral_2_eq_2)
  then show ?thesis
    using v r ex_wf_video_input by simp
qed

section \<open>The MMTwins forward pass: what the result depends on\<close>

lemma forward_unfolded:
  "MMTwins_forward cfg mods inp out =
     bindE (compute_ind cfg inp) (\<lambda>ind.
     bindE (text_branch mods inp) (\<lambda>(text, text_avg).
     bindE (video_branch cfg mods inp ind (length (token_ids inp))) (\<lambda>vo.
     bindE (video_weights cfg ind (length (token_ids inp)) (length (modalities cfg)) vo) (\<lambda>w.
     bindE (text_weights cfg text (length (token_ids inp)) (size1 (token_ids inp))
              (length (modalities cfg))) (\<lambda>tw.
     forward_tail cfg mods out text_avg vo)))))"
  by (simp add: MMTwins_forward_def forward_tail_def Let_def)

lemma forward_returns_payload:
  assumes "MMTwins_forward cfg mods inp out = Inr r"
  shows "forward_payload cfg mods inp out = Inr r"
  using assms unfolding forward_unfolded forward_payload_def
  by (auto simp: bindE_eq_Inr)

lemma agree_cfgD:
  assumes "agree_but_weights cfg cfg'"
  shows "modalities cfg' = modalities cfg" "expert_idx cfg' = expert_idx cfg"
    "same_dim cfg' = same_dim cfg" "vid_inp cfg' = vid_inp cfg" "vid_cont cfg' = vid_cont cfg"
    "pos_enc cfg' = pos_enc cfg" "out_tok cfg' = out_tok cfg"
    "max_position_embeddings cfg' = max_position_embeddings cfg"
  using assms by (simp_all add: agree_but_weights_def)

lemma agree_modsD:
  assumes "agree_but_txt_projector mods mods'"
  shows "video_dim_reduce_fc mods' = video_dim_reduce_fc mods" "vid_bert mods' = vid_bert mods"
    "txt_bert mods' = txt_bert mods" "txt_avg2rep mods' = txt_avg2rep mods"
    "vid_avg2rep mods' = vid_avg2rep mods" "vid_projector mods' = vid_projector mods"
    "bn mods' = bn mods"
  using assms by (simp_all add: agree_but_txt_projector_def)

lemma agree_experts_feats:
  assumes "agree_but_weights cfg cfg'" and "agree_but_txt_projector mods mods'"
  shows "experts_feats cfg' mods' = experts_feats cfg mods"
    and "experts_feats_t cfg' = experts_feats_t cfg"
    and "max_expert_tokens cfg' mods' = max_expert_tokens cfg mods"
    and "maxp_experts mods' = maxp_experts mods"
    and "mnp_experts mods' = mnp_experts mods"
  by (intro ext, simp add: experts_feats_def experts_feats_t_def max_expert_tokens_def
      maxp_experts_def mnp_experts_def agree_cfgD[OF assms(1)] agree_modsD[OF assms(2)])+

lemma agree_tokens:
  assumes "agree_but_weights cfg cfg'" and "agree_but_txt_projector mods mods'"
  shows "frame_token cfg' mods' = frame_token cfg mods"
    and "agg_token cfg' mods' = agg_token cfg mods"
    and "cls_token cfg' = cls_token cfg"
  by (intro ext, simp add: frame_token_def agg_token_def cls_token_def
      agree_cfgD[OF assms(1)] agree_experts_feats[OF assms])+

lemma agree_modality_tokens:
  assumes "agree_but_weights cfg cfg'" and "agree_but_txt_projector mods mods'"
  shows "modality_tokens cfg' mods' = modality_tokens cfg mods"
  by (intro ext) (simp add: modality_tokens_def agree_cfgD[OF assms(1)]
      agree_experts_feats[OF assms] agree_tokens[OF assms])

lemma agree_video_bert_input:
  assumes "agree_but_weights cfg cfg'" and "agree_but_txt_projector mods mods'"
  shows "video_bert_input cfg' mods' = video_bert_input cfg mods"
  by (intro ext) (simp add: video_bert_input_def video_tokens_def agree_cfgD[OF assms(1)]
      agree_modality_tokens[OF assms] agree_tokens[OF assms])

lemma agree_video_branch:
  assumes "agree_but_weights cfg cfg'" and "agree_but_txt_projector mods mods'"
  shows "video_branch cfg' mods' = video_branch cfg mods"
  by (intro ext) (simp add: video_branch_def agree_cfgD[OF assms(1)] agree_modsD[OF assms(2)]
      agree_video_bert_input[OF assms])

lemma agree_tail:
  assumes "agree_but_weights cfg cfg'" and "agree_but_txt_projector mods mods'"
  shows "forward_tail cfg' mods' = forward_tail cfg mods"
    and "compute_ind cfg' = compute_ind cfg"
    and "text_branch mods' = text_branch mods"
proof -
  show "forward_tail cfg' mods' = forward_tail cfg mods"
    by (intro ext) (simp add: forward_tail_def Let_def agree_cfgD[OF assms(1)]
        agree_modsD[OF assms(2)] split: option.split cong: if_cong)
  show "compute_ind cfg' = compute_ind cfg"
    by (intro ext) (simp add: compute_ind_def agree_cfgD[OF assms(1)])
  show "text_branch mods' = text_branch mods"
    by (intro ext) (simp add: text_branch_def agree_modsD[OF assms(2)])
qed

lemma agree_payload:
  assumes "agree_but_weights cfg cfg'" and "agree_but_txt_projector mods mods'"
  shows "forward_payload cfg' mods' = forward_payload cfg mods"
  by (intro ext) (simp add: forward_payload_def agree_tail[OF assms] agree_video_branch[OF assms])

lemma agree_refl: "agree_but_txt_projector mods mods" "agree_but_weights cfg cfg"
  by (simp_all add: agree_but_txt_projector_def agree_but_weights_def)

lemma agree_forward:
  assumes "agree_but_txt_projector mods mods'"
  shows "MMTwins_forward cfg mods' = MMTwins_forward cfg mods"
  by (intro ext) (simp add: forward_unfolded agree_tail(1,3)[OF agree_refl(2) assms]
      agree_video_branch[OF agree_refl(2) assms])

lemma weights_do_not_reach_result:
  assumes "agree_but_weights cfg cfg'"
    and "MMTwins_forward cfg mods inp out = Inr r"
    and "MMTwins_forward cfg' mods inp out = Inr r'"
  shows "r = r'"
  using forward_returns_payload[OF assms(2)] forward_returns_payload[OF assms(3)]
    agree_payload[OF assms(1) agree_refl(1), of mods]
  by simp

subsection \<open>The concrete run\<close>

lemma upt_small: "[0..<1] = [0]" "[0..<2] = [0, 1]" "[0..<Suc 0] = [0]"
  by (simp_all add: upt_rec)

lemma four: "Suc (Suc (Suc (Suc 0))) = 4"
  by simp

lemma normalize_single: "a \<noteq> 0 \<Longrightarrow> normalize_eps \<le> \<bar>a\<bar> \<Longrightarrow> normalize_vec [a] = [a / \<bar>a\<bar>]"
  by (simp add: normalize_vec_def norm2_single max_def)

lemma ex_compute_ind: "compute_ind ex_cfg ex_inp = Inr ex_ind"
  by (simp add: compute_ind_def ex_cfg_fields ex_inp_fields ex_ind_def amax_int_def)

lemma ex_text_branch: "text_branch ex_mods ex_inp = Inr ([[5]], [[7]])"
  by (simp add: text_branch_def text_bert_input_def ex_mods_fields ex_inp_fields size2_def size1_def
      select_tok_def stack_dim1_def full_def column_def mean_dim1_def mean_rows_def upt_small Let_def)

lemma ex_features: "experts_feats ex_cfg ex_mods ex_inp ''rgb'' = [[[1], [1]]]"
    "experts_feats ex_cfg ex_mods ex_inp ''audio'' = [[[1]]]"
    "maxp_experts ex_mods ex_inp modality = [[1]]"
  by (simp_all add: experts_feats_def maxp_experts_def ex_cfg_fields ex_mods_fields ex_inp_fields
      ReduceDim_forward_def normalize_single normalize_eps_def)

lemma ex_video_bert_input:
  "video_bert_input ex_cfg ex_mods ex_inp ex_ind (Suc 0) = Inr (ex_bert_input, ex_tok_map)"
  by (simp add: video_bert_input_def video_tokens_def modality_tokens_def frame_token_def
      agg_token_def cls_token_def max_expert_tokens_def ex_features ex_ind_values
      size1_def column_def stack_dim1_def full_def upt_small Let_def ex_bert_input_def ex_tok_map_def
      ex_cfg_fields ex_inp_fields four)

lemma ex_video_branch:
  "video_branch ex_cfg ex_mods ex_inp ex_ind (Suc 0) = Inr (Some ex_video_out)"
  by (simp add: video_branch_def ex_video_bert_input ex_cfg_fields ex_bert_input_def ex_tok_map_def
      ex_mods_fields column_def mean_dim1_def mean_rows_def expert_of_def ex_video_out_def upt_small)

lemma ex_video_weights_nrm:
  "video_weights ex_cfg ex_ind (Suc 0) (Suc (Suc 0)) (Some ex_video_out)
     = Inr [[Num (1 / 3), Num (2 / 3)]]"
  by (simp add: video_weights_def ex_cfg_fields compute_weights_from_norm_def ex_video_out_def
      norm2_single div_s_def mul_weights_def ex_ind_values normalize_l1_def normalize_eps_def
      upt_small Let_def)

lemma ex_video_weights_none:
  "video_weights (ex_cfg\<lparr>vid_wgh := ''none''\<rparr>) ex_ind (Suc 0) (Suc (Suc 0)) (Some ex_video_out)
     = Inr [[Num (1 / 2), Num (1 / 2)]]"
  by (simp add: video_weights_def ex_cfg_fields mul_weights_def ex_ind_values normalize_l1_def
      normalize_eps_def upt_small Let_def)

lemma ex_text_weights:
  "text_weights ex_cfg [[5]] (Suc 0) (Suc 0) (Suc (Suc 0)) = Inr [[[Num (1 / 2), Num (1 / 2)]]]"
  "text_weights (ex_cfg\<lparr>vid_wgh := w\<rparr>) [[5]] (Suc 0) (Suc 0) (Suc (Suc 0))
     = Inr [[[Num (1 / 2), Num (1 / 2)]]]"
  by (simp_all add: text_weights_def ex_cfg_fields normalize_l1_def normalize_eps_def)

lemma ex_forward_tail:
  "forward_tail ex_cfg ex_mods ''conf'' [[7]] (Some ex_video_out)
     = Inr (CrossViewConf [''rgb'', ''audio''] [[1]])"
  "forward_tail ex_cfg ex_mods ''corr'' [[7]] (Some ex_video_out)
     = Inr (Correlation [''rgb'', ''audio''] [[196 / 5]])"
  "forward_tail ex_cfg ex_mods ''emb'' [[7]] (Some ex_video_out)
     = Inr (Representations [[7 / 5]] [[7]])"
  by (simp_all add: forward_tail_def ex_video_out_def ex_mods_fields ex_cfg_fields
      sharded_cross_view_inner_product_def normalize_rows_def normalize_single normalize_eps_def
      matmul_nt_def dot_def size1_def cpt_cross_corrletaion_matrix_def matmul_tn_def upt_small)

lemma ex_agree: "agree_but_weights ex_cfg (ex_cfg\<lparr>vid_wgh := ''none''\<rparr>)"
  by (simp add: agree_but_weights_def)

lemma ex_forward_nrm:
  "MMTwins_forward ex_cfg ex_mods ex_inp out = forward_tail ex_cfg ex_mods out [[7]] (Some ex_video_out)"
  by (simp add: forward_unfolded ex_compute_ind ex_text_branch ex_inp_fields ex_cfg_fields
      ex_video_branch ex_video_weights_nrm ex_text_weights size1_def)

lemma ex_forward_none:
  "MMTwins_forward (ex_cfg\<lparr>vid_wgh := ''none''\<rparr>) ex_mods ex_inp out
     = forward_tail ex_cfg ex_mods out [[7]] (Some ex_video_out)"
  by (simp add: forward_unfolded agree_tail(1,2)[OF ex_agree agree_refl(1)]
      agree_video_branch[OF ex_agree agree_refl(1)] ex_compute_ind ex_text_branch ex_inp_fields
      ex_cfg_fields ex_video_branch ex_video_weights_none ex_text_weights size1_def)


lemma tail_corr_from_representations:
  assumes "out \<noteq> ''conf''" and "out \<noteq> ''corr''"
    and "forward_tail cfg mods out text_avg vo = Inr (Representations vid_reps txt_reps)"
  shows "forward_tail cfg mods ''corr'' text_avg vo =
     bindE (bn mods (map (vid_projector mods) vid_reps)) (\<lambda>vid_embd_CL.
     bindE (bn mods (map (vid_projector mods) txt_reps)) (\<lambda>txt_embd_CL.
     bindE (cpt_cross_corrletaion_matrix vid_embd_CL txt_embd_CL (modalities cfg)) (\<lambda>c.
     Inr (Correlation (modalities cfg) c))))"
proof (cases vo)
  case None
  then show ?thesis
    using assms(3) by (simp add: forward_tail_def)
next
  case (Some v)
  have "vid_reps = map (vid_avg2rep mods) (vid_avg v)" and "txt_reps = map (txt_avg2rep mods) text_avg"
    using assms by (auto simp: forward_tail_def Some Let_def bindE_eq_Inr)
  then show ?thesis
    by (simp add: forward_tail_def Some Let_def)
qed

lemma forward_corr_from_representations:
  assumes "out \<noteq> ''conf''" and "out \<noteq> ''corr''"
    and "MMTwins_forward cfg mods inp out = Inr (Representations vid_reps txt_reps)"
  shows "MMTwins_forward cfg mods inp ''corr'' =
     bindE (bn mods (map (vid_projector mods) vid_reps)) (\<lambda>vid_embd_CL.
     bindE (bn mods (map (vid_projector mods) txt_reps)) (\<lambda>txt_embd_CL.
     bindE (cpt_cross_corrletaion_matrix vid_embd_CL txt_embd_CL (modalities cfg)) (\<lambda>c.
     Inr (Correlation (modalities cfg) c))))"
proof -
  obtain ind cls text_avg vo w tw where
    steps: "compute_ind cfg inp = Inr ind" "text_branch mods inp = Inr (cls, text_avg)"
      "video_branch cfg mods inp ind (length (token_ids inp)) = Inr vo"
      "video_weights cfg ind (length (token_ids inp)) (length (modalities cfg)) vo = Inr w"
      "text_weights cfg cls (length (token_ids inp)) (size1 (token_ids inp))
         (length (modalities cfg)) = Inr tw"
    and tail: "forward_tail cfg mods out text_avg vo = Inr (Representations vid_reps txt_reps)"
    using assms(3) unfolding forward_unfolded by (auto simp: bindE_eq_Inr)
  have "MMTwins_forward cfg mods inp ''corr'' = forward_tail cfg mods ''corr'' text_avg vo"
    unfolding forward_unfolded by (simp add: steps)
  then show ?thesis
    using tail_corr_from_representations[OF assms(1,2) tail] by simp
qed

text \<open>
  Claim C5, as amended. The modality weights do not influence the value returned:
  two runs of \<^verbatim>\<open>forward\<close> on one input that differ only in the weighting options
  (\<^verbatim>\<open>vid_wgh\<close>, \<^verbatim>\<open>txt_wgh\<close>, \<^verbatim>\<open>keep_missing_modalities\<close>), and so in the weights
  computed, return equal dictionaries whenever both return.
\<close>

theorem weighting_options_never_change_forward_result:
  assumes "agree_but_weights cfg cfg'"
    and "MMTwins_forward cfg mods inp out = Inr r"
    and "MMTwins_forward cfg' mods inp out = Inr r'"
  shows "r = r'"
  by (rule weights_do_not_reach_result[OF assms])

theorem weighting_options_never_change_forward_result_witness:
  "agree_but_weights ex_cfg (ex_cfg\<lparr>vid_wgh := ''none''\<rparr>) \<and>
   video_weights ex_cfg ex_ind 1 2 (Some ex_video_out) = Inr [[Num (1 / 3), Num (2 / 3)]] \<and>
   video_weights (ex_cfg\<lparr>vid_wgh := ''none''\<rparr>) ex_ind 1 2 (Some ex_video_out)
     = Inr [[Num (1 / 2), Num (1 / 2)]] \<and>
   MMTwins_forward ex_cfg ex_mods ex_inp ''conf'' = Inr (CrossViewConf [''rgb'', ''audio''] [[1]]) \<and>
   MMTwins_forward (ex_cfg\<lparr>vid_wgh := ''none''\<rparr>) ex_mods ex_inp ''conf''
     = Inr (CrossViewConf [''rgb'', ''audio''] [[1]])"
proof -
  have nrm: "MMTwins_forward ex_cfg ex_mods ex_inp ''conf'' = Inr (CrossViewConf [''rgb'', ''audio''] [[1]])"
    by (simp add: ex_forward_nrm ex_forward_tail)
  obtain r' where none: "MMTwins_forward (ex_cfg\<lparr>vid_wgh := ''none''\<rparr>) ex_mods ex_inp ''conf'' = Inr r'"
    by (simp add: ex_forward_none ex_forward_tail)
  have "CrossViewConf [''rgb'', ''audio''] [[1]] = r'"
    by (rule weighting_options_never_change_forward_result[OF ex_agree nrm none])
  then show ?thesis
    using nrm none ex_agree ex_video_weights_nrm ex_video_weights_none
    by (simp add: numeral_2_eq_2)
qed

text \<open>The claim as stated asks for an input on which the run with
  \<^verbatim>\<open>vid_wgh='nrm'\<close> and the run with \<^verbatim>\<open>vid_wgh='none'\<close> return different
  dictionaries; there is none.\<close>

theorem no_input_separates_weighting_modes:
  "\<not> (\<exists>cfg mods inp out r r'.
        MMTwins_forward (cfg\<lparr>vid_wgh := ''nrm'', txt_wgh := ''none''\<rparr>) mods inp out = Inr r
      \<and> MMTwins_forward (cfg\<lparr>vid_wgh := ''none'', txt_wgh := ''none''\<rparr>) mods inp out = Inr r'
      \<and> r \<noteq> r')"
proof -
  have "agree_but_weights (cfg\<lparr>vid_wgh := ''nrm'', txt_wgh := ''none''\<rparr>)
          (cfg\<lparr>vid_wgh := ''none'', txt_wgh := ''none''\<rparr>)" for cfg :: config
    by (simp add: agree_but_weights_def)
  then show ?thesis
    using weights_do_not_reach_result by blast
qed

text \<open>
  Claim C9. The module \<^verbatim>\<open>txt_projector\<close> never influences what \<^verbatim>\<open>forward\<close>
  returns: replacing it by any other module leaves the outcome of every run
  unchanged. Both contrastive embeddings go through \<^verbatim>\<open>vid_projector\<close> and
  \<^verbatim>\<open>bn\<close>: whenever a run returns the representations \<^verbatim>\<open>vid_reps\<close> and
  \<^verbatim>\<open>text_reps\<close>, the run with \<^verbatim>\<open>out='corr'\<close> returns the cross-correlation of
  \<open>bn (vid_projector vid_reps)\<close> and \<open>bn (vid_projector txt_reps)\<close>.
\<close>

theorem txt_projector_never_reaches_result:
  "MMTwins_forward cfg (mods\<lparr>txt_projector := p\<rparr>) inp out = MMTwins_forward cfg mods inp out
   \<and> (\<forall>vid_reps txt_reps.
         out \<noteq> ''conf'' \<and> out \<noteq> ''corr''
         \<and> MMTwins_forward cfg mods inp out = Inr (Representations vid_reps txt_reps) \<longrightarrow>
         MMTwins_forward cfg mods inp ''corr'' =
           bindE (bn mods (map (vid_projector mods) vid_reps)) (\<lambda>vid_embd_CL.
           bindE (bn mods (map (vid_projector mods) txt_reps)) (\<lambda>txt_embd_CL.
           bindE (cpt_cross_corrletaion_matrix vid_embd_CL txt_embd_CL (modalities cfg)) (\<lambda>c.
           Inr (Correlation (modalities cfg) c)))))"
proof -
  have "agree_but_txt_projector mods (mods\<lparr>txt_projector := p\<rparr>)"
    by (simp add: agree_but_txt_projector_def)
  from agree_forward[OF this, of cfg] show ?thesis
    using forward_corr_from_representations[of out cfg mods inp] by simp
qed

theorem txt_projector_never_reaches_result_witness:
  "MMTwins_forward ex_cfg ex_mods ex_inp ''emb'' = Inr (Representations [[7 / 5]] [[7]]) \<and>
   txt_projector ex_mods [7] = [21] \<and> vid_projector ex_mods [7] = [14] \<and>
   MMTwins_forward ex_cfg (ex_mods\<lparr>txt_projector := (\<lambda>x. x)\<rparr>) ex_inp ''corr''
     = Inr (Correlation [''rgb'', ''audio''] [[14 / 5 * 14]])"
proof -
  have emb: "MMTwins_forward ex_cfg ex_mods ex_inp ''emb'' = Inr (Representations [[7 / 5]] [[7]])"
    by (simp add: ex_forward_nrm ex_forward_tail)
  note t = txt_projector_never_reaches_result[where cfg = ex_cfg and mods = ex_mods
      and p = "\<lambda>x. x" and inp = ex_inp]
  have "MMTwins_forward ex_cfg (ex_mods\<lparr>txt_projector := (\<lambda>x. x)\<rparr>) ex_inp ''corr''
      = MMTwins_forward ex_cfg ex_mods ex_inp ''corr''"
    using t[where out = "''corr''"] by simp
  also have "\<dots> = Inr (Correlation [''rgb'', ''audio''] [[14 / 5 * 14]])"
    using t[where out = "''emb''"] emb
    by (simp add: ex_mods_fields ex_cfg_fields cpt_cross_corrletaion_matrix_def matmul_tn_def
        size1_def upt_small)
  finally show ?thesis
    using emb by (simp add: ex_mods_fields)
qed

section \<open>Token-level max-mean similarity: the two functions agree\<close>







































end
